theory Spec2Isabelle
  imports Main "HOL-Library.Word"
begin

section \<open>Shared modelling conventions\<close>

text \<open>
  A \<open>datetime\<close> is modelled as the number of microseconds since an arbitrary epoch (an
  unbounded integer, so the year-9999 overflow of Python's datetime is outside the model),
  and a \<open>timedelta\<close> as a number of microseconds. Every call of \<open>datetime.now()\<close> in the
  source becomes an explicit argument of the modelled function, in the order in which the
  source reads the clock.
\<close>

type_synonym datetime = int
type_synonym timedelta = int

definition timedelta_minutes :: "int \<Rightarrow> timedelta" where
  "timedelta_minutes m = m * 60000000"

definition timedelta_hours :: "int \<Rightarrow> timedelta" where
  "timedelta_hours h = h * 3600000000"

text \<open>
  A Python \<open>dict\<close> keeps its keys in insertion order. Where the order is observable
  (iteration, \<open>next(iter(d))\<close>, \<open>sorted(d.items())\<close>) a dict is an association list with
  the oldest key first: assignment to a present key replaces the value in place, assignment
  to a new key appends, \<open>del\<close> removes the entry.
\<close>

type_synonym ('k, 'v) dict = "('k \<times> 'v) list"

definition dict_get :: "('k, 'v) dict \<Rightarrow> 'k \<Rightarrow> 'v option" where
  "dict_get d k = map_of d k"

definition dict_contains :: "'k \<Rightarrow> ('k, 'v) dict \<Rightarrow> bool" where
  "dict_contains k d = (k \<in> set (map fst d))"

primrec dict_set :: "'k \<Rightarrow> 'v \<Rightarrow> ('k, 'v) dict \<Rightarrow> ('k, 'v) dict" where
  "dict_set k v [] = [(k, v)]"
| "dict_set k v (p # ps) = (if fst p = k then (k, v) # ps else p # dict_set k v ps)"

definition dict_del :: "'k \<Rightarrow> ('k, 'v) dict \<Rightarrow> ('k, 'v) dict" where
  "dict_del k d = filter (\<lambda>p. fst p \<noteq> k) d"

text \<open>Python's \<open>xs[i:]\<close>: a negative start counts from the end and is clamped at 0.\<close>

definition slice_from :: "int \<Rightarrow> 'a list \<Rightarrow> 'a list" where
  "slice_from i xs =
     (if i < 0 then drop (nat (max 0 (int (length xs) + i))) xs else drop (nat i) xs)"

section \<open>utils/rate\_limiting.py\<close>

record RateLimitInfo =
  requests_made :: int
  window_start :: datetime
  last_request :: "datetime option"
  is_blocked :: bool
  block_until :: "datetime option"

text \<open>\<open>RateLimitInfo()\<close>: the default factory of \<open>window_start\<close> reads the clock.\<close>

definition RateLimitInfo_new :: "datetime \<Rightarrow> RateLimitInfo" where
  "RateLimitInfo_new created =
     \<lparr>requests_made = 0, window_start = created, last_request = None,
      is_blocked = False, block_until = None\<rparr>"

record RateLimiter =
  max_requests :: int
  window_minutes :: int
  users :: "string \<rightharpoonup> RateLimitInfo"

definition RateLimiter_init :: "int \<Rightarrow> int \<Rightarrow> RateLimiter" where
  "RateLimiter_init mr wm = \<lparr>max_requests = mr, window_minutes = wm, users = Map.empty\<rparr>"

text \<open>
  \<open>is_allowed\<close> reads the clock once (\<open>now\<close>) and, for a key it has not seen, a second
  time (\<open>created\<close>) when it builds the fresh \<open>RateLimitInfo\<close>. The info object is stored in
  \<open>self.users\<close> and mutated in place, so every path returns the limiter with the entry
  of the key written back.
\<close>

definition is_allowed ::
  "datetime \<Rightarrow> datetime \<Rightarrow> RateLimiter \<Rightarrow> string \<Rightarrow> bool \<times> RateLimiter" where
  "is_allowed now created rl user_id =
     (let user_info = (case users rl user_id of
                         None \<Rightarrow> RateLimitInfo_new created
                       | Some i \<Rightarrow> i);
          store = (\<lambda>i. rl\<lparr>users := (users rl)(user_id \<mapsto> i)\<rparr>);
          blocked = (is_blocked user_info \<and> block_until user_info \<noteq> None)
      in if blocked \<and> (case block_until user_info of None \<Rightarrow> False | Some u \<Rightarrow> now < u)
         then (False, store user_info)
         else
           let unblocked = (if blocked
                            then user_info\<lparr>is_blocked := False, block_until := None\<rparr>
                            else user_info);
               window_age = now - window_start unblocked;
               current = (if window_age \<ge> timedelta_minutes (window_minutes rl)
                          then unblocked\<lparr>requests_made := 0, window_start := now\<rparr>
                          else unblocked)
           in if requests_made current \<ge> max_requests rl
              then (False, store (current\<lparr>is_blocked := True,
                      block_until := Some (now + timedelta_minutes (window_minutes rl))\<rparr>))
              else (True, store (current\<lparr>requests_made := requests_made current + 1,
                      last_request := Some now\<rparr>)))"

definition get_remaining_requests :: "RateLimiter \<Rightarrow> string \<Rightarrow> int" where
  "get_remaining_requests rl user_id =
     (case users rl user_id of
        None \<Rightarrow> max_requests rl
      | Some user_info \<Rightarrow> max 0 (max_requests rl - requests_made user_info))"

definition get_reset_time :: "RateLimiter \<Rightarrow> string \<Rightarrow> datetime option" where
  "get_reset_time rl user_id =
     (case users rl user_id of
        None \<Rightarrow> None
      | Some user_info \<Rightarrow>
          Some (window_start user_info + timedelta_minutes (window_minutes rl)))"

text \<open>
  A run of consecutive \<open>is_allowed\<close> calls for one key; each call comes with its two
  clock readings. The answers are collected in call order.
\<close>

fun is_allowed_calls ::
  "(datetime \<times> datetime) list \<Rightarrow> RateLimiter \<Rightarrow> string \<Rightarrow> bool list \<times> RateLimiter" where
  "is_allowed_calls [] rl user_id = ([], rl)"
| "is_allowed_calls ((now, created) # ts) rl user_id =
     (let (b, rl') = is_allowed now created rl user_id;
          (bs, rl'') = is_allowed_calls ts rl' user_id
      in (b # bs, rl''))"


section \<open>Python values, dictionaries of values and errors\<close>

text \<open>
  Python does not check field annotations. A field that the source fills with whatever the
  caller or a dictionary holds (\<open>id=data['id']\<close>, \<open>UserStats(**data['stats'])\<close>) is
  modelled as a dynamically typed value \<open>pyval\<close>; a field that the source converts
  (\<open>MessageRole(...)\<close>, \<open>datetime.fromisoformat(...)\<close>, a nested \<open>from_dict\<close>) has the
  type the conversion produces. A float is its 64-bit pattern: the code only stores and
  copies floats.
\<close>

datatype pyval =
    PNone
  | PBool bool
  | PInt int
  | PFloat "64 word"
  | PStr string
  | PDatetime datetime
  | PList "pyval list"
  | PDict "(string \<times> pyval) list"

type_synonym pydict = "(string, pyval) dict"

datatype error =
    KeyError string
  | ValueError
  | TypeError
  | AttributeError
  | NameError string
  | StopIteration

text \<open>Truth value testing, as \<open>if x:\<close> does it.\<close>

fun truthy :: "pyval \<Rightarrow> bool" where
  "truthy PNone = False"
| "truthy (PBool b) = b"
| "truthy (PInt i) = (i \<noteq> 0)"
| "truthy (PFloat w) = (w \<noteq> 0 \<and> w \<noteq> 0x8000000000000000)"
| "truthy (PStr s) = (s \<noteq> [])"
| "truthy (PDatetime d) = True"
| "truthy (PList xs) = (xs \<noteq> [])"
| "truthy (PDict kvs) = (kvs \<noteq> [])"

text \<open>\<open>data[key]\<close> raises KeyError on a missing key; \<open>data.get(key, default)\<close> does not.\<close>

definition getitem :: "pydict \<Rightarrow> string \<Rightarrow> error + pyval" where
  "getitem data key = (case map_of data key of None \<Rightarrow> Inl (KeyError key) | Some v \<Rightarrow> Inr v)"

definition get_default :: "pydict \<Rightarrow> string \<Rightarrow> pyval \<Rightarrow> pyval" where
  "get_default data key dflt = (case map_of data key of None \<Rightarrow> dflt | Some v \<Rightarrow> v)"

text \<open>Sequencing of computations that may raise.\<close>

definition and_then :: "error + 'a \<Rightarrow> ('a \<Rightarrow> error + 'b) \<Rightarrow> error + 'b" where
  "and_then r f = (case r of Inl e \<Rightarrow> Inl e | Inr x \<Rightarrow> f x)"

text \<open>
  \<open>datetime.isoformat\<close> and \<open>datetime.fromisoformat\<close> belong to the standard library.
  The functions that use them take the pair as parameters \<open>isoformat\<close> and \<open>fromisoformat\<close>;
  \<open>fromisoformat\<close> raises TypeError on an argument that is not a string.
\<close>

definition datetime_fromisoformat ::
  "(string \<Rightarrow> error + datetime) \<Rightarrow> pyval \<Rightarrow> error + datetime" where
  "datetime_fromisoformat fromisoformat v = (case v of PStr s \<Rightarrow> fromisoformat s | _ \<Rightarrow> Inl TypeError)"

text \<open>
  An enum class called on a value, \<open>E(v)\<close>, returns the member with that value and raises
  ValueError when there is none. The members are listed in declaration order.
\<close>

definition enum_of :: "('e \<Rightarrow> string) \<Rightarrow> 'e list \<Rightarrow> pyval \<Rightarrow> error + 'e" where
  "enum_of val members v =
     (case v of
        PStr s \<Rightarrow> (case find (\<lambda>e. val e = s) members of
                     Some e \<Rightarrow> Inr e
                   | None \<Rightarrow> Inl ValueError)
      | _ \<Rightarrow> Inl ValueError)"

text \<open>
  \<open>C(**d)\<close> for a dataclass \<open>C\<close> whose fields all have defaults: \<open>d\<close> must be a mapping
  and every key the name of a field, else TypeError; a field without a key takes its
  default.
\<close>

definition kwargs :: "string list \<Rightarrow> pyval \<Rightarrow> error + pydict" where
  "kwargs names v =
     (case v of
        PDict d \<Rightarrow> if list_all (\<lambda>p. fst p \<in> set names) d then Inr d else Inl TypeError
      | _ \<Rightarrow> Inl TypeError)"

section \<open>models/chat\_models.py\<close>

datatype MessageRole = USER | MODEL | SYSTEM

fun MessageRole_value :: "MessageRole \<Rightarrow> string" where
  "MessageRole_value USER = ''user''"
| "MessageRole_value MODEL = ''model''"
| "MessageRole_value SYSTEM = ''system''"

definition MessageRole_of :: "pyval \<Rightarrow> error + MessageRole" where
  "MessageRole_of = enum_of MessageRole_value [USER, MODEL, SYSTEM]"

datatype MessageStatus = PENDING | SENT | DELIVERED | FAILED

fun MessageStatus_value :: "MessageStatus \<Rightarrow> string" where
  "MessageStatus_value PENDING = ''pending''"
| "MessageStatus_value SENT = ''sent''"
| "MessageStatus_value DELIVERED = ''delivered''"
| "MessageStatus_value FAILED = ''failed''"

definition MessageStatus_of :: "pyval \<Rightarrow> error + MessageStatus" where
  "MessageStatus_of = enum_of MessageStatus_value [PENDING, SENT, DELIVERED, FAILED]"

text \<open>The field \<open>id\<close> of the source is \<open>msg_id\<close> here.\<close>

record ChatMessage =
  msg_id :: pyval
  role :: MessageRole
  content :: pyval
  timestamp :: datetime
  status :: MessageStatus
  metadata :: pyval

definition ChatMessage_to_dict :: "(datetime \<Rightarrow> string) \<Rightarrow> ChatMessage \<Rightarrow> pydict" where
  "ChatMessage_to_dict isoformat m =
     [(''id'', msg_id m),
      (''role'', PStr (MessageRole_value (role m))),
      (''content'', ChatMessage.content m),
      (''timestamp'', PStr (isoformat (timestamp m))),
      (''status'', PStr (MessageStatus_value (ChatMessage.status m))),
      (''metadata'', ChatMessage.metadata m)]"

definition ChatMessage_from_dict ::
  "(string \<Rightarrow> error + datetime) \<Rightarrow> pydict \<Rightarrow> error + ChatMessage" where
  "ChatMessage_from_dict fromisoformat data =
     and_then (getitem data ''id'') (\<lambda>i.
     and_then (getitem data ''role'') (\<lambda>rv.
     and_then (MessageRole_of rv) (\<lambda>r.
     and_then (getitem data ''content'') (\<lambda>c.
     and_then (getitem data ''timestamp'') (\<lambda>tv.
     and_then (datetime_fromisoformat fromisoformat tv) (\<lambda>t.
     and_then (getitem data ''status'') (\<lambda>sv.
     and_then (MessageStatus_of sv) (\<lambda>s.
     Inr \<lparr>msg_id = i, role = r, content = c, timestamp = t, status = s,
          metadata = get_default data ''metadata'' (PDict [])\<rparr>))))))))"

record ChatSession =
  session_id :: string
  user_id :: "string option"
  messages :: "ChatMessage list"
  created_at :: datetime
  last_activity :: datetime
  is_active :: bool
  settings :: pydict

text \<open>
  \<open>ChatSession(session_id=..., user_id=...)\<close>: the default factories of \<open>created_at\<close> and
  \<open>last_activity\<close> each read the clock, in field order.
\<close>

definition ChatSession_new :: "datetime \<Rightarrow> datetime \<Rightarrow> string \<Rightarrow> string option \<Rightarrow> ChatSession" where
  "ChatSession_new created active sid uid =
     \<lparr>session_id = sid, user_id = uid, messages = [], created_at = created,
      last_activity = active, is_active = True, settings = []\<rparr>"

definition add_message :: "datetime \<Rightarrow> ChatSession \<Rightarrow> ChatMessage \<Rightarrow> ChatSession" where
  "add_message now session message =
     session\<lparr>messages := messages session @ [message], last_activity := now\<rparr>"

record ChatHistory =
  sessions :: "(string, ChatSession) dict"
  max_sessions :: int
  max_messages_per_session :: int

definition ChatHistory_init :: "int \<Rightarrow> int \<Rightarrow> ChatHistory" where
  "ChatHistory_init ms mm = \<lparr>sessions = [], max_sessions = ms, max_messages_per_session = mm\<rparr>"

text \<open>\<open>dict(pairs)\<close>: the pairs are assigned one after the other.\<close>

definition dict_of_items :: "('k \<times> 'v) list \<Rightarrow> ('k, 'v) dict" where
  "dict_of_items kvs = foldl (\<lambda>d kv. dict_set (fst kv) (snd kv) d) [] kvs"

text \<open>\<open>sorted\<close> is stable, as \<open>sort_key\<close> is.\<close>

definition cleanup_old_sessions :: "ChatHistory \<Rightarrow> ChatHistory" where
  "cleanup_old_sessions h =
     (if int (length (sessions h)) > max_sessions h
      then let sorted_sessions = sort_key (\<lambda>x. last_activity (snd x)) (sessions h);
               sessions_to_keep = slice_from (- max_sessions h) sorted_sessions
           in h\<lparr>sessions := dict_of_items sessions_to_keep\<rparr>
      else h)"

definition create_session ::
  "datetime \<Rightarrow> datetime \<Rightarrow> ChatHistory \<Rightarrow> string \<Rightarrow> string option \<Rightarrow> ChatSession \<times> ChatHistory" where
  "create_session created active h sid uid =
     (let session = ChatSession_new created active sid uid
      in (session, cleanup_old_sessions (h\<lparr>sessions := dict_set sid session (sessions h)\<rparr>)))"

definition get_session :: "ChatHistory \<Rightarrow> string \<Rightarrow> ChatSession option" where
  "get_session h sid = dict_get (sessions h) sid"

definition get_or_create_session ::
  "datetime \<Rightarrow> datetime \<Rightarrow> ChatHistory \<Rightarrow> string \<Rightarrow> string option \<Rightarrow> ChatSession \<times> ChatHistory" where
  "get_or_create_session created active h sid uid =
     (case get_session h sid of
        None \<Rightarrow> create_session created active h sid uid
      | Some session \<Rightarrow> (session, h))"

definition delete_session :: "ChatHistory \<Rightarrow> string \<Rightarrow> bool \<times> ChatHistory" where
  "delete_session h sid =
     (if dict_contains sid (sessions h)
      then (True, h\<lparr>sessions := dict_del sid (sessions h)\<rparr>)
      else (False, h))"

definition cleanup_messages :: "ChatHistory \<Rightarrow> string \<Rightarrow> ChatHistory" where
  "cleanup_messages h sid =
     (case get_session h sid of
        None \<Rightarrow> h
      | Some session \<Rightarrow>
          if int (length (messages session)) > max_messages_per_session h
          then h\<lparr>sessions := dict_set sid
                   (session\<lparr>messages :=
                      slice_from (- max_messages_per_session h) (messages session)\<rparr>)
                   (sessions h)\<rparr>
          else h)"

text \<open>
  A caller appends to a registered session by \<open>history.get_session(sid).add_message(m)\<close>.
  The session object is the one the mapping holds, so the mapping sees the append; an
  unknown identifier has no session to append to and the history stays as it is.
\<close>

definition append_message :: "datetime \<Rightarrow> ChatHistory \<Rightarrow> string \<Rightarrow> ChatMessage \<Rightarrow> ChatHistory" where
  "append_message now h sid message =
     (case get_session h sid of
        None \<Rightarrow> h
      | Some session \<Rightarrow>
          h\<lparr>sessions := dict_set sid (add_message now session message) (sessions h)\<rparr>)"

text \<open>The mutating operations of a history, and a run of them.\<close>

datatype chat_op =
    CreateSession datetime datetime string "string option"
  | GetOrCreateSession datetime datetime string "string option"
  | DeleteSession string
  | AppendMessage datetime string ChatMessage
  | CleanupMessages string

fun chat_step :: "ChatHistory \<Rightarrow> chat_op \<Rightarrow> ChatHistory" where
  "chat_step h (CreateSession created active sid uid) =
     snd (create_session created active h sid uid)"
| "chat_step h (GetOrCreateSession created active sid uid) =
     snd (get_or_create_session created active h sid uid)"
| "chat_step h (DeleteSession sid) = snd (delete_session h sid)"
| "chat_step h (AppendMessage now sid message) = append_message now h sid message"
| "chat_step h (CleanupMessages sid) = cleanup_messages h sid"

fun is_append :: "chat_op \<Rightarrow> bool" where
  "is_append (AppendMessage now sid message) = True"
| "is_append _ = False"

text \<open>The two bounds of a history, and the well-formedness of its mapping (a dict has no
  key twice).\<close>

definition sessions_bounded :: "ChatHistory \<Rightarrow> bool" where
  "sessions_bounded h = (int (length (sessions h)) \<le> max_sessions h)"

definition messages_bounded :: "ChatHistory \<Rightarrow> bool" where
  "messages_bounded h =
     list_all (\<lambda>p. int (length (messages (snd p))) \<le> max_messages_per_session h) (sessions h)"

definition wf_dict :: "('k, 'v) dict \<Rightarrow> bool" where
  "wf_dict d = distinct (map fst d)"

text \<open>A run of \<open>create_session\<close> calls; each call is given as its two clock readings, the
  session identifier and the user identifier.\<close>

type_synonym create_call = "datetime \<times> datetime \<times> string \<times> string option"

definition call_id :: "create_call \<Rightarrow> string" where
  "call_id c = fst (snd (snd c))"

definition call_session :: "create_call \<Rightarrow> ChatSession" where
  "call_session c = ChatSession_new (fst c) (fst (snd c)) (fst (snd (snd c))) (snd (snd (snd c)))"

definition create_sessions :: "ChatHistory \<Rightarrow> create_call list \<Rightarrow> ChatHistory" where
  "create_sessions =
     foldl (\<lambda>h c. snd (create_session (fst c) (fst (snd c)) h (fst (snd (snd c)))
                          (snd (snd (snd c)))))"

text \<open>Concrete inputs used in the evaluations below.\<close>

definition example_message :: ChatMessage where
  "example_message =
     \<lparr>msg_id = PStr ''m1'', role = USER, content = PStr ''hello'', timestamp = 3,
      status = PENDING, metadata = PDict []\<rparr>"

section \<open>models/response\_models.py\<close>

datatype ResponseType = TEXT | CODE | MARKDOWN | HTML | JSON | ERROR | SYSTEM

fun ResponseType_value :: "ResponseType \<Rightarrow> string" where
  "ResponseType_value TEXT = ''text''"
| "ResponseType_value CODE = ''code''"
| "ResponseType_value MARKDOWN = ''markdown''"
| "ResponseType_value HTML = ''html''"
| "ResponseType_value JSON = ''json''"
| "ResponseType_value ResponseType.ERROR = ''error''"
| "ResponseType_value ResponseType.SYSTEM = ''system''"

definition ResponseType_of :: "pyval \<Rightarrow> error + ResponseType" where
  "ResponseType_of =
     enum_of ResponseType_value
       [TEXT, CODE, MARKDOWN, HTML, JSON, ResponseType.ERROR, ResponseType.SYSTEM]"

datatype ResponseStatus = SUCCESS | PARTIAL | ERROR | TIMEOUT | RATE_LIMITED | PROCESSING

fun ResponseStatus_value :: "ResponseStatus \<Rightarrow> string" where
  "ResponseStatus_value SUCCESS = ''success''"
| "ResponseStatus_value PARTIAL = ''partial''"
| "ResponseStatus_value ResponseStatus.ERROR = ''error''"
| "ResponseStatus_value TIMEOUT = ''timeout''"
| "ResponseStatus_value RATE_LIMITED = ''rate_limited''"
| "ResponseStatus_value PROCESSING = ''processing''"

definition ResponseStatus_of :: "pyval \<Rightarrow> error + ResponseStatus" where
  "ResponseStatus_of =
     enum_of ResponseStatus_value
       [SUCCESS, PARTIAL, ResponseStatus.ERROR, TIMEOUT, RATE_LIMITED, PROCESSING]"

datatype ResponsePriority = LOW | NORMAL | HIGH | URGENT

fun ResponsePriority_value :: "ResponsePriority \<Rightarrow> string" where
  "ResponsePriority_value LOW = ''low''"
| "ResponsePriority_value NORMAL = ''normal''"
| "ResponsePriority_value HIGH = ''high''"
| "ResponsePriority_value URGENT = ''urgent''"

definition ResponsePriority_of :: "pyval \<Rightarrow> error + ResponsePriority" where
  "ResponsePriority_of = enum_of ResponsePriority_value [LOW, NORMAL, HIGH, URGENT]"

record ResponseMetadata =
  model_name :: pyval
  model_version :: pyval
  response_time :: pyval
  token_count :: pyval
  temperature :: pyval
  max_tokens :: pyval
  finish_reason :: pyval
  safety_ratings :: pyval
  citations :: pyval
  confidence_score :: pyval

definition ResponseMetadata_fields :: "string list" where
  "ResponseMetadata_fields =
     [''model_name'', ''model_version'', ''response_time'', ''token_count'', ''temperature'',
      ''max_tokens'', ''finish_reason'', ''safety_ratings'', ''citations'',
      ''confidence_score'']"

text \<open>\<open>ResponseMetadata(**d)\<close>; the float defaults 0.0 and 0.7 as bit patterns.\<close>

definition ResponseMetadata_kwargs :: "pyval \<Rightarrow> error + ResponseMetadata" where
  "ResponseMetadata_kwargs v =
     and_then (kwargs ResponseMetadata_fields v) (\<lambda>d.
     Inr \<lparr>model_name = get_default d ''model_name'' (PStr ''gemini-1.5-flash''),
          model_version = get_default d ''model_version'' (PStr ''1.0''),
          response_time = get_default d ''response_time'' (PFloat 0),
          token_count = get_default d ''token_count'' (PInt 0),
          temperature = get_default d ''temperature'' (PFloat 0x3FE6666666666666),
          max_tokens = get_default d ''max_tokens'' (PInt 1000),
          finish_reason = get_default d ''finish_reason'' (PStr ''stop''),
          safety_ratings = get_default d ''safety_ratings'' (PDict []),
          citations = get_default d ''citations'' (PList []),
          confidence_score = get_default d ''confidence_score'' (PFloat 0)\<rparr>)"

definition ResponseMetadata_to_dict :: "ResponseMetadata \<Rightarrow> pydict" where
  "ResponseMetadata_to_dict md =
     [(''model_name'', model_name md),
      (''model_version'', model_version md),
      (''response_time'', response_time md),
      (''token_count'', token_count md),
      (''temperature'', temperature md),
      (''max_tokens'', max_tokens md),
      (''finish_reason'', finish_reason md),
      (''safety_ratings'', safety_ratings md),
      (''citations'', citations md),
      (''confidence_score'', confidence_score md)]"

record AIResponse =
  response_id :: pyval
  content :: pyval
  response_type :: ResponseType
  status :: ResponseStatus
  priority :: ResponsePriority
  metadata :: ResponseMetadata
  created_at :: datetime
  user_id :: pyval
  session_id :: pyval
  parent_message_id :: pyval
  suggested_actions :: pyval
  feedback_score :: pyval
  is_helpful :: pyval
  error_message :: pyval

definition AIResponse_to_dict :: "(datetime \<Rightarrow> string) \<Rightarrow> AIResponse \<Rightarrow> pydict" where
  "AIResponse_to_dict isoformat r =
     [(''response_id'', response_id r),
      (''content'', AIResponse.content r),
      (''response_type'', PStr (ResponseType_value (response_type r))),
      (''status'', PStr (ResponseStatus_value (AIResponse.status r))),
      (''priority'', PStr (ResponsePriority_value (priority r))),
      (''metadata'', PDict (ResponseMetadata_to_dict (AIResponse.metadata r))),
      (''created_at'', PStr (isoformat (AIResponse.created_at r))),
      (''user_id'', AIResponse.user_id r),
      (''session_id'', AIResponse.session_id r),
      (''parent_message_id'', parent_message_id r),
      (''suggested_actions'', suggested_actions r),
      (''feedback_score'', feedback_score r),
      (''is_helpful'', is_helpful r),
      (''error_message'', error_message r)]"

definition AIResponse_from_dict ::
  "(string \<Rightarrow> error + datetime) \<Rightarrow> pydict \<Rightarrow> error + AIResponse" where
  "AIResponse_from_dict fromisoformat data =
     and_then (getitem data ''response_id'') (\<lambda>i.
     and_then (getitem data ''content'') (\<lambda>c.
     and_then (getitem data ''response_type'') (\<lambda>tv.
     and_then (ResponseType_of tv) (\<lambda>t.
     and_then (getitem data ''status'') (\<lambda>sv.
     and_then (ResponseStatus_of sv) (\<lambda>s.
     and_then (getitem data ''priority'') (\<lambda>pv.
     and_then (ResponsePriority_of pv) (\<lambda>p.
     and_then (getitem data ''metadata'') (\<lambda>mv.
     and_then (ResponseMetadata_kwargs mv) (\<lambda>md.
     and_then (getitem data ''created_at'') (\<lambda>cv.
     and_then (datetime_fromisoformat fromisoformat cv) (\<lambda>created.
     Inr \<lparr>response_id = i, content = c, response_type = t, status = s, priority = p,
          metadata = md, created_at = created,
          user_id = get_default data ''user_id'' PNone,
          session_id = get_default data ''session_id'' PNone,
          parent_message_id = get_default data ''parent_message_id'' PNone,
          suggested_actions = get_default data ''suggested_actions'' (PList []),
          feedback_score = get_default data ''feedback_score'' PNone,
          is_helpful = get_default data ''is_helpful'' PNone,
          error_message = get_default data ''error_message'' PNone\<rparr>))))))))))))"

record ResponseCache =
  cache :: "(string, AIResponse) dict"
  max_size :: int
  hit_count :: int
  miss_count :: int

definition ResponseCache_init :: "int \<Rightarrow> ResponseCache" where
  "ResponseCache_init ms = \<lparr>cache = [], max_size = ms, hit_count = 0, miss_count = 0\<rparr>"

text \<open>
  \<open>_hash_content\<close>: \<open>hashlib.md5(...).hexdigest()\<close> is the parameter \<open>md5\<close>. The key is
  built from the content and \<open>user_id or 'anonymous'\<close>, so an absent and an empty user
  identifier both read as \<open>anonymous\<close>.
\<close>

definition hash_content :: "(string \<Rightarrow> string) \<Rightarrow> string \<Rightarrow> string option \<Rightarrow> string" where
  "hash_content md5 text uid =
     (let cache_key = text @ '':'' @
            (case uid of None \<Rightarrow> ''anonymous'' | Some u \<Rightarrow> if u = [] then ''anonymous'' else u)
      in md5 cache_key)"

text \<open>The methods \<open>get\<close> and \<open>set\<close> of the cache.\<close>

definition ResponseCache_get ::
  "(string \<Rightarrow> string) \<Rightarrow> ResponseCache \<Rightarrow> string \<Rightarrow> string option \<Rightarrow>
     AIResponse option \<times> ResponseCache" where
  "ResponseCache_get md5 c text uid =
     (let cache_key = hash_content md5 text uid
      in case dict_get (cache c) cache_key of
           Some r \<Rightarrow> (Some r, c\<lparr>hit_count := hit_count c + 1\<rparr>)
         | None \<Rightarrow> (None, c\<lparr>miss_count := miss_count c + 1\<rparr>))"

text \<open>\<open>next(iter(self.cache))\<close> raises StopIteration on an empty dict.\<close>

definition ResponseCache_set ::
  "(string \<Rightarrow> string) \<Rightarrow> ResponseCache \<Rightarrow> string \<Rightarrow> AIResponse \<Rightarrow> string option \<Rightarrow>
     error + ResponseCache" where
  "ResponseCache_set md5 c text response uid =
     (let cache_key = hash_content md5 text uid
      in if int (length (cache c)) \<ge> max_size c
         then (case cache c of
                 [] \<Rightarrow> Inl StopIteration
               | oldest # rest \<Rightarrow>
                   Inr (c\<lparr>cache := dict_set cache_key response
                                      (dict_del (fst oldest) (cache c))\<rparr>))
         else Inr (c\<lparr>cache := dict_set cache_key response (cache c)\<rparr>))"

section \<open>models/user\_models.py\<close>

datatype UserRole = GUEST | REGISTERED | PREMIUM | ADMIN

fun UserRole_value :: "UserRole \<Rightarrow> string" where
  "UserRole_value GUEST = ''guest''"
| "UserRole_value REGISTERED = ''registered''"
| "UserRole_value PREMIUM = ''premium''"
| "UserRole_value ADMIN = ''admin''"

definition UserRole_of :: "pyval \<Rightarrow> error + UserRole" where
  "UserRole_of = enum_of UserRole_value [GUEST, REGISTERED, PREMIUM, ADMIN]"

datatype Theme = DARK | LIGHT | AUTO

fun Theme_value :: "Theme \<Rightarrow> string" where
  "Theme_value DARK = ''dark''"
| "Theme_value LIGHT = ''light''"
| "Theme_value AUTO = ''auto''"

definition Theme_of :: "pyval \<Rightarrow> error + Theme" where
  "Theme_of = enum_of Theme_value [DARK, LIGHT, AUTO]"

datatype Language =
  ENGLISH | SPANISH | FRENCH | GERMAN | ITALIAN | PORTUGUESE | RUSSIAN | CHINESE | JAPANESE
  | KOREAN | ARABIC | HINDI

fun Language_value :: "Language \<Rightarrow> string" where
  "Language_value ENGLISH = ''en''"
| "Language_value SPANISH = ''es''"
| "Language_value FRENCH = ''fr''"
| "Language_value GERMAN = ''de''"
| "Language_value ITALIAN = ''it''"
| "Language_value PORTUGUESE = ''pt''"
| "Language_value RUSSIAN = ''ru''"
| "Language_value CHINESE = ''zh''"
| "Language_value JAPANESE = ''ja''"
| "Language_value KOREAN = ''ko''"
| "Language_value ARABIC = ''ar''"
| "Language_value HINDI = ''hi''"

definition Language_of :: "pyval \<Rightarrow> error + Language" where
  "Language_of =
     enum_of Language_value
       [ENGLISH, SPANISH, FRENCH, GERMAN, ITALIAN, PORTUGUESE, RUSSIAN, CHINESE, JAPANESE,
        KOREAN, ARABIC, HINDI]"

record UserPreferences =
  theme :: Theme
  language :: Language
  notifications :: pyval
  sound_effects :: pyval
  auto_scroll :: pyval
  message_preview :: pyval
  typing_indicators :: pyval
  message_timestamps :: pyval
  compact_mode :: pyval
  accessibility_mode :: pyval

definition UserPreferences_new :: UserPreferences where
  "UserPreferences_new =
     \<lparr>theme = DARK, language = ENGLISH, notifications = PBool True,
      sound_effects = PBool False, auto_scroll = PBool True, message_preview = PBool True,
      typing_indicators = PBool True, message_timestamps = PBool True,
      compact_mode = PBool False, accessibility_mode = PBool False\<rparr>"

definition UserPreferences_to_dict :: "UserPreferences \<Rightarrow> pydict" where
  "UserPreferences_to_dict p =
     [(''theme'', PStr (Theme_value (theme p))),
      (''language'', PStr (Language_value (language p))),
      (''notifications'', notifications p),
      (''sound_effects'', sound_effects p),
      (''auto_scroll'', auto_scroll p),
      (''message_preview'', message_preview p),
      (''typing_indicators'', typing_indicators p),
      (''message_timestamps'', message_timestamps p),
      (''compact_mode'', compact_mode p),
      (''accessibility_mode'', accessibility_mode p)]"

text \<open>\<open>data.get\<close> on a value that is not a dict raises AttributeError.\<close>

definition UserPreferences_from_dict :: "pyval \<Rightarrow> error + UserPreferences" where
  "UserPreferences_from_dict v =
     (case v of
        PDict data \<Rightarrow>
          and_then (Theme_of (get_default data ''theme'' (PStr (Theme_value DARK)))) (\<lambda>t.
          and_then (Language_of (get_default data ''language'' (PStr (Language_value ENGLISH))))
            (\<lambda>l.
          Inr \<lparr>theme = t, language = l,
               notifications = get_default data ''notifications'' (PBool True),
               sound_effects = get_default data ''sound_effects'' (PBool False),
               auto_scroll = get_default data ''auto_scroll'' (PBool True),
               message_preview = get_default data ''message_preview'' (PBool True),
               typing_indicators = get_default data ''typing_indicators'' (PBool True),
               message_timestamps = get_default data ''message_timestamps'' (PBool True),
               compact_mode = get_default data ''compact_mode'' (PBool False),
               accessibility_mode = get_default data ''accessibility_mode'' (PBool False)\<rparr>))
      | _ \<Rightarrow> Inl AttributeError)"

record UserStats =
  total_messages :: pyval
  total_sessions :: pyval
  total_time_spent :: pyval
  favorite_topics :: pyval
  most_active_hours :: pyval
  average_session_length :: pyval
  last_activity :: pyval

definition UserStats_new :: UserStats where
  "UserStats_new =
     \<lparr>total_messages = PInt 0, total_sessions = PInt 0, total_time_spent = PInt 0,
      favorite_topics = PList [], most_active_hours = PList [],
      average_session_length = PFloat 0, last_activity = PNone\<rparr>"

definition UserStats_fields :: "string list" where
  "UserStats_fields =
     [''total_messages'', ''total_sessions'', ''total_time_spent'', ''favorite_topics'',
      ''most_active_hours'', ''average_session_length'', ''last_activity'']"

text \<open>\<open>UserStats(**d)\<close>: every entry of \<open>d\<close> is stored as it is.\<close>

definition UserStats_kwargs :: "pyval \<Rightarrow> error + UserStats" where
  "UserStats_kwargs v =
     and_then (kwargs UserStats_fields v) (\<lambda>d.
     Inr \<lparr>total_messages = get_default d ''total_messages'' (PInt 0),
          total_sessions = get_default d ''total_sessions'' (PInt 0),
          total_time_spent = get_default d ''total_time_spent'' (PInt 0),
          favorite_topics = get_default d ''favorite_topics'' (PList []),
          most_active_hours = get_default d ''most_active_hours'' (PList []),
          average_session_length = get_default d ''average_session_length'' (PFloat 0),
          last_activity = get_default d ''last_activity'' PNone\<rparr>)"

text \<open>
  \<open>self.last_activity.isoformat() if self.last_activity else None\<close>: a falsy value gives
  None, a datetime its ISO text, and any other truthy value has no \<open>isoformat\<close>.
\<close>

definition isoformat_if_set :: "(datetime \<Rightarrow> string) \<Rightarrow> pyval \<Rightarrow> error + pyval" where
  "isoformat_if_set isoformat v =
     (if truthy v
      then (case v of PDatetime d \<Rightarrow> Inr (PStr (isoformat d)) | _ \<Rightarrow> Inl AttributeError)
      else Inr PNone)"

definition UserStats_to_dict :: "(datetime \<Rightarrow> string) \<Rightarrow> UserStats \<Rightarrow> error + pydict" where
  "UserStats_to_dict isoformat st =
     and_then (isoformat_if_set isoformat (UserStats.last_activity st)) (\<lambda>la.
     Inr [(''total_messages'', total_messages st),
          (''total_sessions'', total_sessions st),
          (''total_time_spent'', total_time_spent st),
          (''favorite_topics'', favorite_topics st),
          (''most_active_hours'', most_active_hours st),
          (''average_session_length'', average_session_length st),
          (''last_activity'', la)])"

record User =
  user_id :: pyval
  username :: pyval
  email :: pyval
  role :: UserRole
  preferences :: UserPreferences
  stats :: UserStats
  created_at :: datetime
  last_login :: "datetime option"
  is_active :: pyval
  session_token :: pyval
  metadata :: pyval

definition login :: "datetime \<Rightarrow> User \<Rightarrow> string \<Rightarrow> User" where
  "login now u token =
     u\<lparr>last_login := Some now, session_token := PStr token, User.is_active := PBool True\<rparr>"

definition logout :: "User \<Rightarrow> User" where
  "logout u = u\<lparr>session_token := PNone\<rparr>"

definition User_to_dict :: "(datetime \<Rightarrow> string) \<Rightarrow> User \<Rightarrow> error + pydict" where
  "User_to_dict isoformat u =
     and_then (UserStats_to_dict isoformat (stats u)) (\<lambda>st.
     Inr [(''user_id'', User.user_id u),
          (''username'', username u),
          (''email'', email u),
          (''role'', PStr (UserRole_value (User.role u))),
          (''preferences'', PDict (UserPreferences_to_dict (preferences u))),
          (''stats'', PDict st),
          (''created_at'', PStr (isoformat (User.created_at u))),
          (''last_login'', (case last_login u of
                              Some d \<Rightarrow> PStr (isoformat d)
                            | None \<Rightarrow> PNone)),
          (''is_active'', User.is_active u),
          (''session_token'', session_token u),
          (''metadata'', User.metadata u)])"

definition User_from_dict :: "(string \<Rightarrow> error + datetime) \<Rightarrow> pydict \<Rightarrow> error + User" where
  "User_from_dict fromisoformat data =
     and_then (getitem data ''user_id'') (\<lambda>i.
     and_then (getitem data ''username'') (\<lambda>n.
     and_then (getitem data ''role'') (\<lambda>rv.
     and_then (UserRole_of rv) (\<lambda>r.
     and_then (getitem data ''preferences'') (\<lambda>pv.
     and_then (UserPreferences_from_dict pv) (\<lambda>p.
     and_then (getitem data ''stats'') (\<lambda>sv.
     and_then (UserStats_kwargs sv) (\<lambda>st.
     and_then (getitem data ''created_at'') (\<lambda>cv.
     and_then (datetime_fromisoformat fromisoformat cv) (\<lambda>created.
     and_then (if truthy (get_default data ''last_login'' PNone)
               then and_then (getitem data ''last_login'') (\<lambda>lv.
                    and_then (datetime_fromisoformat fromisoformat lv) (\<lambda>l. Inr (Some l)))
               else Inr None) (\<lambda>ll.
     Inr \<lparr>user_id = i, username = n, email = get_default data ''email'' PNone, role = r,
          preferences = p, stats = st, created_at = created, last_login = ll,
          is_active = get_default data ''is_active'' (PBool True),
          session_token = get_default data ''session_token'' PNone,
          metadata = get_default data ''metadata'' (PDict [])\<rparr>)))))))))))"

record UserManager =
  users :: "(string, User) dict"
  active_sessions :: "(string, string) dict"
  max_users :: int

definition UserManager_init :: UserManager where
  "UserManager_init = \<lparr>users = [], active_sessions = [], max_users = 10000\<rparr>"

text \<open>\<open>User(user_id=..., username=..., email=..., role=...)\<close> reads the clock once, for
  \<open>created_at\<close>.\<close>

definition User_new :: "datetime \<Rightarrow> string \<Rightarrow> string \<Rightarrow> string option \<Rightarrow> UserRole \<Rightarrow> User" where
  "User_new created uid name mail r =
     \<lparr>user_id = PStr uid, username = PStr name,
      email = (case mail of None \<Rightarrow> PNone | Some e \<Rightarrow> PStr e), role = r,
      preferences = UserPreferences_new, stats = UserStats_new, created_at = created,
      last_login = None, is_active = PBool True, session_token = PNone,
      metadata = PDict []\<rparr>"

definition create_user ::
  "datetime \<Rightarrow> UserManager \<Rightarrow> string \<Rightarrow> string \<Rightarrow> string option \<Rightarrow> UserRole \<Rightarrow>
     User \<times> UserManager" where
  "create_user created m uid name mail r =
     (let user = User_new created uid name mail r
      in (user, m\<lparr>users := dict_set uid user (UserManager.users m)\<rparr>))"

definition get_user :: "UserManager \<Rightarrow> string \<Rightarrow> User option" where
  "get_user m uid = dict_get (UserManager.users m) uid"

text \<open>\<open>if user_id:\<close> is false for an absent entry and for the empty string.\<close>

definition get_user_by_session :: "UserManager \<Rightarrow> string \<Rightarrow> User option" where
  "get_user_by_session m token =
     (case dict_get (active_sessions m) token of
        Some uid \<Rightarrow> if uid \<noteq> [] then get_user m uid else None
      | None \<Rightarrow> None)"

text \<open>
  The user objects live in \<open>self.users\<close>; \<open>login\<close> and \<open>logout\<close> mutate the object found
  there, so the mapping is updated at the key under which the object was found.
\<close>

definition authenticate_user ::
  "datetime \<Rightarrow> UserManager \<Rightarrow> string \<Rightarrow> string \<Rightarrow> bool \<times> UserManager" where
  "authenticate_user now m uid token =
     (case get_user m uid of
        Some user \<Rightarrow>
          if truthy (User.is_active user)
          then (True, m\<lparr>users := dict_set uid (login now user token) (UserManager.users m),
                        active_sessions := dict_set token uid (active_sessions m)\<rparr>)
          else (False, m)
      | None \<Rightarrow> (False, m))"

definition logout_user :: "UserManager \<Rightarrow> string \<Rightarrow> bool \<times> UserManager" where
  "logout_user m token =
     (case get_user_by_session m token of
        Some user \<Rightarrow>
          (case dict_get (active_sessions m) token of
             Some uid \<Rightarrow>
               (True, m\<lparr>users := dict_set uid (logout user) (UserManager.users m),
                        active_sessions := dict_del token (active_sessions m)\<rparr>)
           | None \<Rightarrow> (False, m))
      | None \<Rightarrow> (False, m))"

text \<open>
  The names bound at module level in \<open>user_models.py\<close>: its imports (\<open>datetime\<close>;
  \<open>Dict\<close>, \<open>Optional\<close>, \<open>Any\<close>, \<open>List\<close>; \<open>dataclass\<close>, \<open>field\<close>; \<open>Enum\<close>) and its
  classes. A name that a function reads and that is neither local nor bound here nor a
  builtin raises NameError when the expression is evaluated.
\<close>

definition user_models_globals :: "string list" where
  "user_models_globals =
     [''datetime'', ''Dict'', ''Optional'', ''Any'', ''List'', ''dataclass'', ''field'',
      ''Enum'', ''UserRole'', ''Theme'', ''Language'', ''UserPreferences'', ''UserStats'',
      ''User'', ''UserManager'']"

definition lookup_global :: "string \<Rightarrow> error + unit" where
  "lookup_global name =
     (if name \<in> set user_models_globals then Inr () else Inl (NameError name))"

text \<open>
  \<open>cleanup_inactive_sessions\<close>: the first statement evaluates \<open>datetime.now()\<close> and then
  the name \<open>timedelta\<close>. The rest of the body is the loop that collects the tokens and the
  loop that logs them out.
\<close>

definition cleanup_inactive_sessions :: "datetime \<Rightarrow> UserManager \<Rightarrow> int \<Rightarrow> error + UserManager" where
  "cleanup_inactive_sessions now m max_age_hours =
     and_then (lookup_global ''timedelta'') (\<lambda>_.
       let cutoff_time = now - timedelta_hours max_age_hours;
           sessions_to_remove =
             map fst (filter (\<lambda>p. case get_user m (snd p) of
                                     Some user \<Rightarrow> (case last_login user of
                                                     Some l \<Rightarrow> l < cutoff_time
                                                   | None \<Rightarrow> False)
                                   | None \<Rightarrow> False)
                             (active_sessions m))
       in Inr (foldl (\<lambda>m' token. snd (logout_user m' token)) m sessions_to_remove))"

text \<open>The operations of a manager, and the state after one of them. An operation that
  raises leaves the state as it was.\<close>

datatype user_op =
    CreateUser datetime string string "string option" UserRole
  | AuthenticateUser datetime string string
  | GetUserBySession string
  | LogoutUser string
  | CleanupInactiveSessions datetime int

fun user_step :: "UserManager \<Rightarrow> user_op \<Rightarrow> UserManager" where
  "user_step m (CreateUser created uid name mail r) = snd (create_user created m uid name mail r)"
| "user_step m (AuthenticateUser now uid token) = snd (authenticate_user now m uid token)"
| "user_step m (GetUserBySession token) = m"
| "user_step m (LogoutUser token) = snd (logout_user m token)"
| "user_step m (CleanupInactiveSessions now max_age_hours) =
     (case cleanup_inactive_sessions now m max_age_hours of Inl e \<Rightarrow> m | Inr m' \<Rightarrow> m')"

text \<open>
  The correspondence between the index and the users: every token of the index leads to
  a registered user whose \<open>session_token\<close> is that token.
\<close>

definition index_consistent :: "UserManager \<Rightarrow> bool" where
  "index_consistent m =
     list_all (\<lambda>p. case get_user m (snd p) of
                      Some user \<Rightarrow> session_token user = PStr (fst p)
                    | None \<Rightarrow> False)
              (active_sessions m)"

section \<open>Dictionaries\<close>

lemma dict_get_set: "dict_get (dict_set k v d) k' = (if k' = k then Some v else dict_get d k')"
  by (induction d) (auto simp add: dict_get_def)

lemma dict_get_del: "dict_get (dict_del k d) k' = (if k' = k then None else dict_get d k')"
  by (induction d) (auto simp add: dict_get_def dict_del_def)

lemma dict_contains_get: "dict_contains k d \<longleftrightarrow> dict_get d k \<noteq> None"
  by (simp add: dict_contains_def dict_get_def map_of_eq_None_iff)

lemma keys_dict_set:
  "map fst (dict_set k v d) = (if dict_contains k d then map fst d else map fst d @ [k])"
  by (induction d) (auto simp add: dict_contains_def)

lemma dict_set_absent: "\<not> dict_contains k d \<Longrightarrow> dict_set k v d = d @ [(k, v)]"
  by (induction d) (auto simp add: dict_contains_def)

lemma length_dict_set:
  "length (dict_set k v d) = (if dict_contains k d then length d else Suc (length d))"
  by (induction d) (auto simp add: dict_contains_def)

lemma set_dict_set: "set (dict_set k v d) \<subseteq> insert (k, v) (set d)"
  by (induction d) auto

lemma wf_dict_set: "wf_dict d \<Longrightarrow> wf_dict (dict_set k v d)"
  by (simp add: wf_dict_def keys_dict_set dict_contains_def)

lemma wf_dict_del: "wf_dict d \<Longrightarrow> wf_dict (dict_del k d)"
  by (simp add: wf_dict_def dict_del_def distinct_map_filter)

lemma length_dict_del: "length (dict_del k d) \<le> length d"
  by (simp add: dict_del_def)

lemma dict_of_items_snoc:
  "dict_of_items (kvs @ [kv]) = dict_set (fst kv) (snd kv) (dict_of_items kvs)"
  by (simp add: dict_of_items_def)

lemma dict_of_items_wf: "wf_dict kvs \<Longrightarrow> dict_of_items kvs = kvs"
proof (induction kvs rule: rev_induct)
  case Nil
  then show ?case by (simp add: dict_of_items_def)
next
  case (snoc kv kvs)
  then have "dict_of_items kvs = kvs" and "\<not> dict_contains (fst kv) kvs"
    by (auto simp add: wf_dict_def dict_contains_def)
  then show ?case
    by (simp add: dict_of_items_snoc dict_set_absent)
qed

lemma length_dict_of_items: "length (dict_of_items kvs) \<le> length kvs"
proof (induction kvs rule: rev_induct)
  case Nil
  then show ?case by (simp add: dict_of_items_def)
next
  case (snoc kv kvs)
  then show ?case
    by (simp add: dict_of_items_snoc length_dict_set)
qed

lemma set_dict_of_items: "set (dict_of_items kvs) \<subseteq> set kvs"
proof (induction kvs rule: rev_induct)
  case Nil
  then show ?case by (simp add: dict_of_items_def)
next
  case (snoc kv kvs)
  have "set (dict_set (fst kv) (snd kv) (dict_of_items kvs))
      \<subseteq> insert kv (set (dict_of_items kvs))"
    using set_dict_set [of "fst kv" "snd kv" "dict_of_items kvs"] by simp
  with snoc show ?case
    by (auto simp add: dict_of_items_snoc)
qed

section \<open>Properties of the rate limiter\<close>

lemma is_allowed_calls_append:
  "is_allowed_calls (ts @ us) rl k =
     (let (bs, rl') = is_allowed_calls ts rl k;
          (cs, rl'') = is_allowed_calls us rl' k
      in (bs @ cs, rl''))"
  by (induction ts arbitrary: rl) (auto simp add: Let_def split: prod.splits)

lemma is_allowed_while_blocked:
  assumes "RateLimiter.users rl k = Some i" and "is_blocked i" and "block_until i = Some u" and "now < u"
  shows "is_allowed now created rl k = (False, rl)"
proof -
  have "(RateLimiter.users rl)(k \<mapsto> i) = RateLimiter.users rl"
    using assms(1) by (simp add: fun_upd_idem)
  then show ?thesis
    using assms by (simp add: is_allowed_def Let_def)
qed

lemma is_allowed_calls_while_blocked:
  assumes "RateLimiter.users rl k = Some i" and "is_blocked i" and "block_until i = Some u"
    and "\<forall>p \<in> set ts. fst p < u"
  shows "is_allowed_calls ts rl k = (replicate (length ts) False, rl)"
  using assms(4)
proof (induction ts)
  case Nil
  then show ?case by simp
next
  case (Cons p ts)
  obtain now created where p: "p = (now, created)" by (cases p)
  from Cons.prems p have "now < u" by simp
  then have "is_allowed now created rl k = (False, rl)"
    using assms(1-3) by (rule is_allowed_while_blocked [rotated 3])
  moreover from Cons have "is_allowed_calls ts rl k = (replicate (length ts) False, rl)"
    by simp
  ultimately show ?case by (simp add: p)
qed

lemma is_allowed_true_increments:
  assumes "is_allowed now created rl k = (True, rl')"
  shows "\<exists>i'. RateLimiter.users rl' k = Some i' \<and>
     requests_made i' =
       (let i = (case RateLimiter.users rl k of None \<Rightarrow> RateLimitInfo_new created | Some i \<Rightarrow> i)
        in (if now - window_start i \<ge> timedelta_minutes (window_minutes rl)
            then 0 else requests_made i) + 1)"
  using assms
  by (auto simp add: is_allowed_def Let_def split: if_splits option.splits)

text \<open>
  C3. A limiter with \<open>max_requests = 3\<close> and \<open>window_minutes = 60\<close> and a key it has not
  seen. The four calls read the clock at \<open>t1 \<le> c1 \<le> t2 \<le> t3 \<le> t4\<close> (\<open>c1\<close> is the
  reading that stamps the fresh window during the first call), all within the window that
  starts at \<open>c1\<close>. Then the four answers are true, true, true, false, and the fourth call
  leaves the key blocked with \<open>block_until = t4 + 60 minutes\<close>. From that state any run of
  calls made before \<open>block_until\<close> is answered false throughout and the call that follows
  at or after \<open>block_until\<close> is answered true, with the block cleared, the window restarted
  at that call and the counter reset (and counting that call). Finally, for any limiter and
  any key, a call that answers true leaves the counter of the key at one more than the
  counter of its current (possibly just restarted, possibly fresh) window.
\<close>

theorem rate_limiter_three_per_hour:
  assumes mr: "max_requests rl = 3" and wm: "window_minutes rl = 60"
    and fresh: "RateLimiter.users rl k = None"
    and order: "t1 \<le> c1" "c1 \<le> t2" "t2 \<le> t3" "t3 \<le> t4"
    and within: "t4 < c1 + timedelta_minutes 60"
  shows "(let blocked_info = \<lparr>requests_made = 3, window_start = c1, last_request = Some t3,
                              is_blocked = True,
                              block_until = Some (t4 + timedelta_minutes 60)\<rparr>;
              blocked = rl\<lparr>RateLimiter.users := (RateLimiter.users rl)(k \<mapsto> blocked_info)\<rparr>
          in is_allowed_calls [(t1, c1), (t2, c2), (t3, c3), (t4, c4)] rl k =
               ([True, True, True, False], blocked) \<and>
             (\<forall>ts t c. (\<forall>p \<in> set ts. fst p < t4 + timedelta_minutes 60) \<and>
                       t4 + timedelta_minutes 60 \<le> t \<longrightarrow>
                is_allowed_calls (ts @ [(t, c)]) blocked k =
                  (replicate (length ts) False @ [True],
                   rl\<lparr>RateLimiter.users := (RateLimiter.users rl)(k \<mapsto>
                     \<lparr>requests_made = 1, window_start = t, last_request = Some t,
                      is_blocked = False, block_until = None\<rparr>)\<rparr>))) \<and>
         (\<forall>now created r r'. is_allowed now created r k = (True, r') \<longrightarrow>
            (\<exists>i'. RateLimiter.users r' k = Some i' \<and>
               requests_made i' =
                 (let i = (case RateLimiter.users r k of None \<Rightarrow> RateLimitInfo_new created | Some i \<Rightarrow> i)
                  in (if now - window_start i \<ge> timedelta_minutes (window_minutes r)
                      then 0 else requests_made i) + 1)))"
proof -
  define blocked_info where "blocked_info =
    \<lparr>requests_made = 3, window_start = c1, last_request = Some t3, is_blocked = True,
     block_until = Some (t4 + timedelta_minutes 60)\<rparr>"
  define blocked where "blocked = rl\<lparr>RateLimiter.users := (RateLimiter.users rl)(k \<mapsto> blocked_info)\<rparr>"
  have four: "is_allowed_calls [(t1, c1), (t2, c2), (t3, c3), (t4, c4)] rl k =
      ([True, True, True, False], blocked)"
    using assms
    by (simp add: is_allowed_def Let_def RateLimitInfo_new_def blocked_def blocked_info_def)
  have later: "is_allowed_calls (ts @ [(t, c)]) blocked k =
      (replicate (length ts) False @ [True],
       rl\<lparr>RateLimiter.users := (RateLimiter.users rl)(k \<mapsto>
         \<lparr>requests_made = 1, window_start = t, last_request = Some t,
          is_blocked = False, block_until = None\<rparr>)\<rparr>)"
    if early: "\<forall>p \<in> set ts. fst p < t4 + timedelta_minutes 60"
      and late: "t4 + timedelta_minutes 60 \<le> t" for ts t c
  proof -
    have b: "RateLimiter.users blocked k = Some blocked_info" "is_blocked blocked_info"
      "block_until blocked_info = Some (t4 + timedelta_minutes 60)"
      by (simp_all add: blocked_def blocked_info_def)
    have stay: "is_allowed_calls ts blocked k = (replicate (length ts) False, blocked)"
      using b early by (rule is_allowed_calls_while_blocked)
    have "t - c1 \<ge> timedelta_minutes 60"
      using late order by simp
    then have "is_allowed t c blocked k =
        (True, rl\<lparr>RateLimiter.users := (RateLimiter.users rl)(k \<mapsto>
           \<lparr>requests_made = 1, window_start = t, last_request = Some t,
            is_blocked = False, block_until = None\<rparr>)\<rparr>)"
      using late mr wm
      by (simp add: is_allowed_def Let_def blocked_def blocked_info_def)
    then show ?thesis
      using stay by (simp add: is_allowed_calls_append)
  qed
  show ?thesis
    unfolding Let_def
    using four later is_allowed_true_increments
    by (simp add: blocked_def blocked_info_def Let_def)
qed

theorem rate_limiter_three_per_hour_witness:
  "is_allowed_calls [(0, 1), (2, 2), (3, 3), (4, 4)] (RateLimiter_init 3 60) ''u'' =
     ([True, True, True, False],
      (RateLimiter_init 3 60)\<lparr>RateLimiter.users := Map.empty(''u'' \<mapsto>
         \<lparr>requests_made = 3, window_start = 1, last_request = Some 3, is_blocked = True,
          block_until = Some 3600000004\<rparr>)\<rparr>)"
  using rate_limiter_three_per_hour
    [of "RateLimiter_init 3 60" "''u''" 0 1 2 3 4 2 3 4]
  by (simp add: RateLimiter_init_def timedelta_minutes_def Let_def)

text \<open>
  C10 (as the code has it). For a key with an entry, \<open>get_reset_time\<close> returns
  \<open>window_start + window_minutes\<close> and \<open>get_remaining_requests\<close> returns
  \<open>max(0, max_requests - requests_made)\<close>. For a key that has never been seen no fresh
  window is made up: \<open>get_reset_time\<close> returns None and \<open>get_remaining_requests\<close> returns
  \<open>max_requests\<close>.
\<close>

theorem rate_limiter_queries:
  "(RateLimiter.users rl k = None \<longrightarrow>
      get_reset_time rl k = None \<and> get_remaining_requests rl k = max_requests rl) \<and>
   (\<forall>i. RateLimiter.users rl k = Some i \<longrightarrow>
      get_reset_time rl k = Some (window_start i + timedelta_minutes (window_minutes rl)) \<and>
      get_remaining_requests rl k = max 0 (max_requests rl - requests_made i))"
  by (simp add: get_reset_time_def get_remaining_requests_def)

theorem rate_limiter_queries_witness:
  "get_remaining_requests (RateLimiter_init 3 60) ''alice'' = 3 \<and>
   get_reset_time (snd (is_allowed 5 7 (RateLimiter_init 3 60) ''alice'')) ''alice'' =
     Some 3600000007 \<and>
   get_remaining_requests (snd (is_allowed 5 7 (RateLimiter_init 3 60) ''alice'')) ''alice'' = 2"
  using rate_limiter_queries [of "RateLimiter_init 3 60" "''alice''"]
    rate_limiter_queries [of "snd (is_allowed 5 7 (RateLimiter_init 3 60) ''alice'')" "''alice''"]
  by (simp add: RateLimiter_init_def is_allowed_def Let_def RateLimitInfo_new_def
      timedelta_minutes_def)

text \<open>
  The claim that a never-seen key has a reset time fails on a limiter that has seen no key.
\<close>

theorem get_reset_time_unseen_counterexample:
  "get_reset_time (RateLimiter_init 3 60) ''alice'' = None"
  by (simp add: get_reset_time_def RateLimiter_init_def)

end
